theory Spec2Isabelle
  imports Main
begin

section \<open>Data model\<close>

text \<open>
  A shallow embedding of \<^verbatim>\<open>src/key/subkey.js\<close> (class \<^verbatim>\<open>SubKey\<close>).
  A JavaScript \<^verbatim>\<open>Date\<close> is its time value (milliseconds, an integer); the value
  \<^verbatim>\<open>Date | Infinity\<close> returned by the expiration queries is \<open>expiry\<close>, and
  \<^verbatim>\<open>null\<close> is \<open>None\<close>.
\<close>

type_synonym date = int

type_synonym keyid = string

datatype expiry = At date | Never

text \<open>\<^verbatim>\<open>enums.packet\<close>: the four key packet tags (\<^verbatim>\<open>SecretSubkeyPacket\<close> sets
  \<^verbatim>\<open>this.tag = enums.packet.secretSubkey\<close>).\<close>

datatype packet_tag = publicKey | secretKey | publicSubkey | secretSubkey

text \<open>\<^verbatim>\<open>enums.signature\<close>: the two types \<^verbatim>\<open>SubKey\<close> names, and the others.\<close>

datatype signature_type = subkeyBinding | subkeyRevocation | otherSignature nat

datatype reason_for_revocation = noReason | keySuperseded | keyCompromised | keyRetired

record key_packet =
  tag :: packet_tag
  keyId :: keyid
  fingerprint :: "nat list"
  keyCreated :: date
  isDecrypted :: bool

record signature =
  signatureType :: signature_type
  issuerKeyId :: keyid
  created :: date
  expiration :: "date option"
  keyValidity :: "int option"
  verified :: bool
  revoked :: bool
  reasonForRevocationFlag :: reason_for_revocation
  reasonForRevocationString :: string
  signatureData :: "nat list"

text \<open>The object \<^verbatim>\<open>{ key: primaryKey, bind: this.keyPacket }\<close>.\<close>

record data_to_verify =
  key :: key_packet
  bind :: key_packet

text \<open>The fields of a \<^verbatim>\<open>SubKey\<close> object.\<close>

record sub_key =
  keyPacket :: key_packet
  bindingSignatures :: "signature list"
  revocationSignatures :: "signature list"

text \<open>
  Every \<^verbatim>\<open>throw\<close> is a value. \<open>Revoked\<close> is \<^verbatim>\<open>Error('Subkey is revoked')\<close>,
  \<open>Expired\<close> is \<^verbatim>\<open>Error('Subkey is expired')\<close>, \<open>FingerprintMismatch\<close> is
  \<^verbatim>\<open>Error('SubKey update method: fingerprints of subkeys not equal')\<close>; the others are
  raised by the collaborators.
\<close>

datatype error =
  FingerprintMismatch
  | NoValidSignature signature_type
  | Revoked
  | Expired
  | VerificationFailure
  | SigningFailure

abbreviation NoValidBindingSignature :: error where
  "NoValidBindingSignature \<equiv> NoValidSignature subkeyBinding"

text \<open>The options object handed to \<^verbatim>\<open>helper.createSignaturePacket\<close>.\<close>

record signature_properties =
  propSignatureType :: signature_type
  propReasonForRevocationFlag :: reason_for_revocation
  propReasonForRevocationString :: string

section \<open>Collaborators\<close>

text \<open>
  \<^verbatim>\<open>subkey.js\<close> imports \<^verbatim>\<open>./helper\<close> and calls methods of the signature and key
  packets; none of them is defined in the file, so the methods of \<^verbatim>\<open>SubKey\<close> take
  them as a parameter: one record with a field per function called. An optional
  argument that the call leaves out or passes as \<^verbatim>\<open>null\<close> is \<open>None\<close>. The callback
  handed to \<^verbatim>\<open>mergeSignatures\<close> reads and writes \<^verbatim>\<open>that.bindingSignatures\<close>, the
  list being merged into, so it takes that list and returns it with its answer, or
  with the error it throws. \<^verbatim>\<open>isDataRevoked\<close> and \<^verbatim>\<open>mergeSignatures\<close> are awaited with
  no \<^verbatim>\<open>try\<close> around them, so each may answer with an error; \<^verbatim>\<open>mergeSignatures\<close>
  returns with its outcome the list as it leaves it.
\<close>

type_synonym check_fn =
  "signature list \<Rightarrow> signature \<Rightarrow> (error + bool) \<times> signature list"

record collaborators =
  getLatestValidSignature ::
    "signature list \<Rightarrow> key_packet \<Rightarrow> signature_type \<Rightarrow> data_to_verify \<Rightarrow> date
      \<Rightarrow> error + signature"
  isDataRevoked ::
    "key_packet \<Rightarrow> signature_type \<Rightarrow> data_to_verify \<Rightarrow> signature list
      \<Rightarrow> signature option \<Rightarrow> key_packet option \<Rightarrow> date option \<Rightarrow> error + bool"
  isDataExpired :: "key_packet \<Rightarrow> signature \<Rightarrow> date \<Rightarrow> bool"
  helper_getExpirationTime :: "key_packet \<Rightarrow> signature \<Rightarrow> expiry"
  mergeSignatures ::
    "signature list \<Rightarrow> signature list \<Rightarrow> check_fn \<Rightarrow> (error + unit) \<times> signature list"
  createSignaturePacket ::
    "data_to_verify \<Rightarrow> key_packet \<Rightarrow> signature_properties \<Rightarrow> date \<Rightarrow> error + signature"
  signature_verify ::
    "signature \<Rightarrow> key_packet \<Rightarrow> signature_type \<Rightarrow> data_to_verify \<Rightarrow> error + unit"
  signature_getExpirationTime :: "signature \<Rightarrow> expiry"
  packet_hasSameFingerprintAs :: "key_packet \<Rightarrow> key_packet \<Rightarrow> bool"

section \<open>The class SubKey\<close>

text \<open>
  The methods are \<^verbatim>\<open>async\<close>; each is modelled by the value it resolves to or the
  error it rejects with, its \<^verbatim>\<open>await\<close>s taken in program order. A \<^verbatim>\<open>date\<close> parameter
  defaults to the current time; the methods here take the date as given.
\<close>

text \<open>The constructor: the given packet and two empty lists.\<close>

definition SubKey :: "key_packet \<Rightarrow> sub_key" where
  "SubKey subKeyPacket =
     \<lparr>keyPacket = subKeyPacket, bindingSignatures = [], revocationSignatures = []\<rparr>"

text \<open>\<^verbatim>\<open>hasSameFingerprintAs(other)\<close>, for \<open>other\<close> a \<^verbatim>\<open>SubKey\<close> (whose
  \<^verbatim>\<open>keyPacket\<close> is set, so \<^verbatim>\<open>other.keyPacket || other\<close> is its packet).\<close>

definition hasSameFingerprintAs :: "collaborators \<Rightarrow> sub_key \<Rightarrow> sub_key \<Rightarrow> bool" where
  "hasSameFingerprintAs E this other =
     packet_hasSameFingerprintAs E (keyPacket this) (keyPacket other)"

definition isRevoked ::
  "collaborators \<Rightarrow> sub_key \<Rightarrow> key_packet \<Rightarrow> signature option \<Rightarrow> key_packet option \<Rightarrow> date
    \<Rightarrow> error + bool" where
  "isRevoked E this primaryKey sig keyOpt d =
     isDataRevoked E primaryKey subkeyRevocation
       \<lparr>key = primaryKey, bind = keyPacket this\<rparr>
       (revocationSignatures this) sig keyOpt (Some d)"

text \<open>\<^verbatim>\<open>verify\<close> returns nothing or throws: \<open>Inr ()\<close> or \<open>Inl\<close> the error. The errors
  of \<^verbatim>\<open>getLatestValidSignature\<close> and of \<^verbatim>\<open>isRevoked\<close> are not caught; \<^verbatim>\<open>isRevoked\<close> is
  called only when the \<^verbatim>\<open>revoked\<close> flag of the selected signature is not set.\<close>

definition verify :: "collaborators \<Rightarrow> sub_key \<Rightarrow> key_packet \<Rightarrow> date \<Rightarrow> error + unit" where
  "verify E this primaryKey d =
     (let dataToVerify = \<lparr>key = primaryKey, bind = keyPacket this\<rparr> in
      case getLatestValidSignature E (bindingSignatures this) primaryKey subkeyBinding
             dataToVerify d of
        Inl e \<Rightarrow> Inl e
      | Inr bindingSignature \<Rightarrow>
          if revoked bindingSignature then Inl Revoked
          else case isRevoked E this primaryKey (Some bindingSignature) None d of
                 Inl e \<Rightarrow> Inl e
               | Inr True \<Rightarrow> Inl Revoked
               | Inr False \<Rightarrow>
                   if isDataExpired E (keyPacket this) bindingSignature d
                   then Inl Expired
                   else Inr ())"

text \<open>The comparison \<^verbatim>\<open>keyExpiry < sigExpiry\<close> of two values that are each a
  \<^verbatim>\<open>Date\<close> or \<^verbatim>\<open>Infinity\<close>: both become numbers.\<close>

fun js_less :: "expiry \<Rightarrow> expiry \<Rightarrow> bool" where
  "js_less (At a) (At b) = (a < b)"
| "js_less (At a) Never = True"
| "js_less Never e = False"

text \<open>\<^verbatim>\<open>getExpirationTime\<close>: the \<^verbatim>\<open>catch\<close> turns any error of the selection
  into \<^verbatim>\<open>null\<close>.\<close>

definition getExpirationTime ::
  "collaborators \<Rightarrow> sub_key \<Rightarrow> key_packet \<Rightarrow> date \<Rightarrow> expiry option" where
  "getExpirationTime E this primaryKey d =
     (let dataToVerify = \<lparr>key = primaryKey, bind = keyPacket this\<rparr> in
      case getLatestValidSignature E (bindingSignatures this) primaryKey subkeyBinding
             dataToVerify d of
        Inl e \<Rightarrow> None
      | Inr bindingSignature \<Rightarrow>
          (let keyExpiry = helper_getExpirationTime E (keyPacket this) bindingSignature;
               sigExpiry = signature_getExpirationTime E bindingSignature
           in Some (if js_less keyExpiry sigExpiry then keyExpiry else sigExpiry)))"

text \<open>
  The \<^verbatim>\<open>for\<close> loop of the binding callback (lines 131 to 138), from index \<open>i\<close>:
  \<open>Some\<close> the list after the \<^verbatim>\<open>return false\<close> of the first entry with the
  candidate's issuer, \<open>None\<close> when the loop runs to the end.
\<close>

function bindingLoop :: "nat \<Rightarrow> signature list \<Rightarrow> signature \<Rightarrow> signature list option" where
  "bindingLoop i bs srcBindSig =
     (if i < length bs then
        (if issuerKeyId (bs ! i) = issuerKeyId srcBindSig then
           Some (if created srcBindSig > created (bs ! i) then bs[i := srcBindSig] else bs)
         else bindingLoop (i + 1) bs srcBindSig)
      else None)"
  by pat_completeness auto
termination
  by (relation "measure (\<lambda>(i, bs, s). length bs - i)") auto

declare bindingLoop.simps [simp del]

text \<open>The \<^verbatim>\<open>try\<close> block of the binding callback (lines 139 to 144):
  \<^verbatim>\<open>srcBindSig.verified || await srcBindSig.verify(...)\<close>, then \<^verbatim>\<open>return true\<close>; any
  error is caught and answered with \<^verbatim>\<open>false\<close>.\<close>

definition acceptsBinding ::
  "collaborators \<Rightarrow> key_packet \<Rightarrow> data_to_verify \<Rightarrow> signature \<Rightarrow> bool" where
  "acceptsBinding E primaryKey dataToVerify srcBindSig =
     (if verified srcBindSig then True
      else case signature_verify E srcBindSig primaryKey subkeyBinding dataToVerify of
             Inr u \<Rightarrow> True
           | Inl e \<Rightarrow> False)"

text \<open>The binding callback (lines 130 to 145): the loop, then the \<^verbatim>\<open>try\<close> block.\<close>

definition bindingCheckFn ::
  "collaborators \<Rightarrow> key_packet \<Rightarrow> data_to_verify \<Rightarrow> check_fn" where
  "bindingCheckFn E primaryKey dataToVerify bs srcBindSig =
     (case bindingLoop 0 bs srcBindSig of
        Some bs' \<Rightarrow> (Inr False, bs')
      | None \<Rightarrow> (Inr (acceptsBinding E primaryKey dataToVerify srcBindSig), bs))"

text \<open>The revocation callback (lines 147 to 149): \<^verbatim>\<open>isDataRevoked\<close> on the one
  candidate, with no signature, key or date given, and no \<^verbatim>\<open>try\<close> around it.\<close>

definition revocationCheckFn ::
  "collaborators \<Rightarrow> key_packet \<Rightarrow> data_to_verify \<Rightarrow> check_fn" where
  "revocationCheckFn E primaryKey dataToVerify rs srcRevSig =
     (isDataRevoked E primaryKey subkeyRevocation dataToVerify [srcRevSig] None None None, rs)"

text \<open>
  \<^verbatim>\<open>update\<close> mutates \<^verbatim>\<open>this\<close> and may throw, so it returns the outcome together with
  the state of \<^verbatim>\<open>this\<close> when it ends. \<^verbatim>\<open>dataToVerify\<close> is built after the key packet
  step, from the packet \<^verbatim>\<open>this\<close> then holds. An error of the first
  \<^verbatim>\<open>await helper.mergeSignatures\<close> ends \<^verbatim>\<open>update\<close> before the second.
\<close>

definition update ::
  "collaborators \<Rightarrow> sub_key \<Rightarrow> sub_key \<Rightarrow> key_packet \<Rightarrow> (error + unit) \<times> sub_key" where
  "update E this subKey primaryKey =
     (if \<not> hasSameFingerprintAs E this subKey then (Inl FingerprintMismatch, this)
      else
        let this1 =
              (if tag (keyPacket this) = publicSubkey \<and> tag (keyPacket subKey) = secretSubkey
               then this\<lparr>keyPacket := keyPacket subKey\<rparr> else this);
            dataToVerify = \<lparr>key = primaryKey, bind = keyPacket this1\<rparr>;
            bindings =
              mergeSignatures E (bindingSignatures subKey) (bindingSignatures this1)
                (bindingCheckFn E primaryKey dataToVerify);
            this2 = this1\<lparr>bindingSignatures := snd bindings\<rparr>
        in case fst bindings of
             Inl e \<Rightarrow> (Inl e, this2)
           | Inr u \<Rightarrow>
               (let revocations =
                      mergeSignatures E (revocationSignatures subKey) (revocationSignatures this2)
                        (revocationCheckFn E primaryKey dataToVerify);
                    this3 = this2\<lparr>revocationSignatures := snd revocations\<rparr>
                in (fst revocations, this3)))"

text \<open>
  \<^verbatim>\<open>revoke\<close>: a new \<^verbatim>\<open>SubKey\<close> on the same packet, the created signature pushed on
  its revocation list, then \<^verbatim>\<open>subKey.update(this, primaryKey)\<close>. The reason flag is
  a member of the enumeration, so \<^verbatim>\<open>enums.write\<close> does not throw.
\<close>

definition revoke ::
  "collaborators \<Rightarrow> sub_key \<Rightarrow> key_packet \<Rightarrow> reason_for_revocation \<times> string \<Rightarrow> date
    \<Rightarrow> error + sub_key" where
  "revoke E this primaryKey reasonForRevocation d =
     (let dataToSign = \<lparr>key = primaryKey, bind = keyPacket this\<rparr>;
          subKey = SubKey (keyPacket this)
      in case createSignaturePacket E dataToSign primaryKey
                \<lparr>propSignatureType = subkeyRevocation,
                 propReasonForRevocationFlag = fst reasonForRevocation,
                 propReasonForRevocationString = snd reasonForRevocation\<rparr> d of
           Inl e \<Rightarrow> Inl e
         | Inr revSig \<Rightarrow>
             (case update E (subKey\<lparr>revocationSignatures :=
                               revocationSignatures subKey @ [revSig]\<rparr>) this primaryKey of
                (Inl e, subKey') \<Rightarrow> Inl e
              | (Inr u, subKey') \<Rightarrow> Inr subKey'))"

section \<open>The collaborators as the specification describes them\<close>

text \<open>
  The functions of \<^verbatim>\<open>helper\<close> and the packet methods are not in the file under
  verification. The definitions of this section follow the specification's
  description of each; results that need more of a collaborator than its type are
  stated for them. Cryptographic verification is the parameter \<open>V\<close> (does this
  signature verify under this key, for this type and this context), signing is
  \<open>Sg\<close> (the bytes of a new signature), and \<open>now\<close> is the clock read where a call
  leaves the date out.
\<close>

type_synonym verifier =
  "signature \<Rightarrow> key_packet \<Rightarrow> signature_type \<Rightarrow> data_to_verify \<Rightarrow> bool"

type_synonym signer =
  "data_to_verify \<Rightarrow> key_packet \<Rightarrow> signature_properties \<Rightarrow> date \<Rightarrow> nat list"

text \<open>Modelled from the spec: the signature method \<^verbatim>\<open>verify\<close> (section 6,
  "verify(signature, bindingContext, expectedType) fails with VerificationFailure on
  rejection").\<close>

definition spec_signature_verify ::
  "verifier \<Rightarrow> signature \<Rightarrow> key_packet \<Rightarrow> signature_type \<Rightarrow> data_to_verify \<Rightarrow> error + unit"
  where
  "spec_signature_verify V sig k expectedType dataToVerify =
     (if V sig k expectedType dataToVerify then Inr () else Inl VerificationFailure)"

text \<open>Modelled from the spec: the signature method \<^verbatim>\<open>getExpirationTime\<close> (4.5, "the
  binding signature's own embedded expiration; may also be Never").\<close>

definition spec_signature_getExpirationTime :: "signature \<Rightarrow> expiry" where
  "spec_signature_getExpirationTime sig =
     (case expiration sig of None \<Rightarrow> Never | Some e \<Rightarrow> At e)"

text \<open>Modelled from the spec: the signature method \<^verbatim>\<open>isExpired\<close> (4.2, "is not expired
  as of asOfDate"), with "at or past" the expiration counted as expired, as 4.4 does
  for the subkey.\<close>

definition spec_signature_isExpired :: "signature \<Rightarrow> date \<Rightarrow> bool" where
  "spec_signature_isExpired sig d =
     (case expiration sig of None \<Rightarrow> False | Some e \<Rightarrow> e \<le> d)"

text \<open>Modelled from the spec: the key packet method \<^verbatim>\<open>hasSameFingerprintAs\<close> (4.1,
  "structural equality on the underlying key material's fingerprint").\<close>

definition spec_packet_hasSameFingerprintAs :: "key_packet \<Rightarrow> key_packet \<Rightarrow> bool" where
  "spec_packet_hasSameFingerprintAs a b = (fingerprint a = fingerprint b)"

text \<open>Modelled from the spec: the candidates of \<^verbatim>\<open>helper.getLatestValidSignature\<close>
  (4.2: of the expected type, verifying against the context under the primary key, and
  not expired as of the date).\<close>

definition validCandidate ::
  "verifier \<Rightarrow> key_packet \<Rightarrow> signature_type \<Rightarrow> data_to_verify \<Rightarrow> date \<Rightarrow> signature \<Rightarrow> bool"
  where
  "validCandidate V primaryKey expectedType dataToVerify d sig =
     (signatureType sig = expectedType
      \<and> spec_signature_verify V sig primaryKey expectedType dataToVerify = Inr ()
      \<and> \<not> spec_signature_isExpired sig d)"

text \<open>Modelled from the spec: the choice among the candidates of
  \<^verbatim>\<open>helper.getLatestValidSignature\<close> (4.2, "has the latest creation timestamp among
  such candidates"), the best so far first.\<close>

fun latest :: "signature \<Rightarrow> signature list \<Rightarrow> signature" where
  "latest best [] = best"
| "latest best (sig # sigs) = latest (if created sig > created best then sig else best) sigs"

text \<open>Modelled from the spec: \<^verbatim>\<open>helper.getLatestValidSignature\<close> (4.2: the signature,
  among those of the expected type, that verifies, is not expired and has the latest
  creation timestamp; fails with NoValidSignature when no candidate qualifies). The
  specification leaves ties open; here the candidate earlier in the list stays.\<close>

definition spec_getLatestValidSignature ::
  "verifier \<Rightarrow> signature list \<Rightarrow> key_packet \<Rightarrow> signature_type \<Rightarrow> data_to_verify \<Rightarrow> date
    \<Rightarrow> error + signature" where
  "spec_getLatestValidSignature V signatures primaryKey expectedType dataToVerify d =
     (case filter (validCandidate V primaryKey expectedType dataToVerify d) signatures of
        [] \<Rightarrow> Inl (NoValidSignature expectedType)
      | c # cs \<Rightarrow> Inr (latest c cs))"

text \<open>Modelled from the spec: \<^verbatim>\<open>helper.isDataRevoked\<close> (4.3: revoked if any signature
  of the list is of the revocation type, verifies against the context, and was created
  at or before the date; the key to verify with falls back to the primary key, the
  date to the evaluation instant; "returns a boolean; never throws": a verification
  that fails counts as not verifying).\<close>

definition spec_isDataRevoked ::
  "verifier \<Rightarrow> date \<Rightarrow> key_packet \<Rightarrow> signature_type \<Rightarrow> data_to_verify \<Rightarrow> signature list
    \<Rightarrow> signature option \<Rightarrow> key_packet option \<Rightarrow> date option \<Rightarrow> error + bool" where
  "spec_isDataRevoked V now primaryKey expectedType dataToVerify revocations sig keyOpt dateOpt =
     (let k = (case keyOpt of None \<Rightarrow> primaryKey | Some k' \<Rightarrow> k');
          d = (case dateOpt of None \<Rightarrow> now | Some d' \<Rightarrow> d')
      in Inr (list_ex (\<lambda>r. signatureType r = expectedType
                     \<and> (case spec_signature_verify V r k expectedType dataToVerify of
                          Inr u \<Rightarrow> True | Inl e \<Rightarrow> False)
                     \<and> created r \<le> d) revocations))"

text \<open>Modelled from the spec: \<^verbatim>\<open>helper.getExpirationTime\<close> (4.5, "derived from
  key-material creation time plus any key-level validity period asserted by the binding
  signature; may be the Never sentinel").\<close>

definition spec_getExpirationTime :: "key_packet \<Rightarrow> signature \<Rightarrow> expiry" where
  "spec_getExpirationTime kp sig =
     (case keyValidity sig of None \<Rightarrow> Never | Some p \<Rightarrow> At (keyCreated kp + p))"

text \<open>Modelled from the spec: \<^verbatim>\<open>helper.isDataExpired\<close> (4.4 step 3: the effective
  expiration of 4.5, key-level and signature-level; expired if the date is at or past
  it).\<close>

definition spec_isDataExpired :: "key_packet \<Rightarrow> signature \<Rightarrow> date \<Rightarrow> bool" where
  "spec_isDataExpired kp sig d =
     (let keyExpiry = spec_getExpirationTime kp sig;
          sigExpiry = spec_signature_getExpirationTime sig
      in case (if js_less keyExpiry sigExpiry then keyExpiry else sigExpiry) of
           Never \<Rightarrow> False
         | At e \<Rightarrow> e \<le> d)"

text \<open>Modelled from the spec: \<^verbatim>\<open>helper.mergeSignatures\<close> (4.6 steps 2 and 3: "for each
  signature in source's list", "accept it into local state only if" the check passes,
  "otherwise drop it silently"). The candidates are taken one after the other, in
  list order; an accepted candidate is put at the end of the list the check left; a
  check that throws ends the merge with its error, since nothing in these steps
  catches it.\<close>

fun spec_mergeSignatures ::
  "signature list \<Rightarrow> signature list \<Rightarrow> check_fn \<Rightarrow> (error + unit) \<times> signature list" where
  "spec_mergeSignatures [] dest checkFn = (Inr (), dest)"
| "spec_mergeSignatures (sourceSig # source) dest checkFn =
     (case checkFn dest sourceSig of
        (Inl e, dest') \<Rightarrow> (Inl e, dest')
      | (Inr accepted, dest') \<Rightarrow>
          spec_mergeSignatures source (if accepted then dest' @ [sourceSig] else dest') checkFn)"

text \<open>Modelled from the spec: \<^verbatim>\<open>helper.createSignaturePacket\<close> (section 6: "signature
  creation given a binding context, signing key, signature type, and type-specific
  parameters ..., producing a new signature timestamped as requested"; 4.7: the key
  must be decrypted private key material, so creation fails with any other key). The
  new signature is issued by the signing key, embeds no expiration and is not yet
  flagged verified or revoked.\<close>

definition spec_createSignaturePacket ::
  "signer \<Rightarrow> data_to_verify \<Rightarrow> key_packet \<Rightarrow> signature_properties \<Rightarrow> date
    \<Rightarrow> error + signature" where
  "spec_createSignaturePacket Sg dataToSign signingKey props d =
     (if (tag signingKey = secretKey \<or> tag signingKey = secretSubkey) \<and> isDecrypted signingKey
      then Inr \<lparr>signatureType = propSignatureType props,
                issuerKeyId = keyId signingKey,
                created = d,
                expiration = None,
                keyValidity = None,
                verified = False,
                revoked = False,
                reasonForRevocationFlag = propReasonForRevocationFlag props,
                reasonForRevocationString = propReasonForRevocationString props,
                signatureData = Sg dataToSign signingKey props d\<rparr>
      else Inl SigningFailure)"

text \<open>Modelled from the spec: the collaborators above as the one record that the
  methods of \<^verbatim>\<open>SubKey\<close> take.\<close>

definition spec_collaborators :: "verifier \<Rightarrow> signer \<Rightarrow> date \<Rightarrow> collaborators" where
  "spec_collaborators V Sg now =
     \<lparr>getLatestValidSignature = spec_getLatestValidSignature V,
      isDataRevoked = spec_isDataRevoked V now,
      isDataExpired = spec_isDataExpired,
      helper_getExpirationTime = spec_getExpirationTime,
      mergeSignatures = spec_mergeSignatures,
      createSignaturePacket = spec_createSignaturePacket Sg,
      signature_verify = spec_signature_verify V,
      signature_getExpirationTime = spec_signature_getExpirationTime,
      packet_hasSameFingerprintAs = spec_packet_hasSameFingerprintAs\<rparr>"

section \<open>Notions the statements use\<close>

text \<open>The ordering of expirations the specification names: \<open>Never\<close> is later than
  every date.\<close>

fun expiry_le :: "expiry \<Rightarrow> expiry \<Rightarrow> bool" where
  "expiry_le e Never = True"
| "expiry_le Never (At b) = False"
| "expiry_le (At a) (At b) = (a \<le> b)"

text \<open>The specification's rule for a local entry and a candidate of the same issuer
  (4.6 step 2: "keep the one with the later creation time (replace local entry if
  source is newer; otherwise discard source's candidate)").\<close>

definition retained :: "signature \<Rightarrow> signature \<Rightarrow> signature" where
  "retained localSig candidate =
     (if issuerKeyId candidate = issuerKeyId localSig \<and> created candidate > created localSig
      then candidate else localSig)"

text \<open>The test of the loop: an entry issued by the key \<open>k\<close>.\<close>

abbreviation sameIssuer :: "keyid \<Rightarrow> signature \<Rightarrow> bool" where
  "sameIssuer k e \<equiv> issuerKeyId e = k"

text \<open>A source list in which every candidate that the \<^verbatim>\<open>try\<close> block rejects is the
  only candidate of its issuer.\<close>

definition loneIfRejected ::
  "collaborators \<Rightarrow> key_packet \<Rightarrow> data_to_verify \<Rightarrow> signature list \<Rightarrow> bool" where
  "loneIfRejected E primaryKey dataToVerify source =
     (\<forall>s\<in>set source. \<not> acceptsBinding E primaryKey dataToVerify s \<longrightarrow>
        (\<forall>other\<in>set source. issuerKeyId other = issuerKeyId s \<longrightarrow> other = s))"

text \<open>A revocation signature that is a valid revocation on its own, as the
  revocation callback asks.\<close>

definition revokesAlone ::
  "collaborators \<Rightarrow> key_packet \<Rightarrow> data_to_verify \<Rightarrow> signature \<Rightarrow> bool" where
  "revokesAlone E primaryKey dataToVerify srcRevSig =
     (isDataRevoked E primaryKey subkeyRevocation dataToVerify [srcRevSig] None None None
        = Inr True)"

text \<open>The list that one step of \<open>spec_mergeSignatures\<close> hands to the next: the list the
  check left, with the candidate at its end when the check accepted it.\<close>

definition spec_mergeOne :: "check_fn \<Rightarrow> signature list \<Rightarrow> signature \<Rightarrow> signature list" where
  "spec_mergeOne checkFn dest sourceSig =
     (if fst (checkFn dest sourceSig) = Inr True
      then snd (checkFn dest sourceSig) @ [sourceSig]
      else snd (checkFn dest sourceSig))"

section \<open>Concrete keys and signatures\<close>

text \<open>The inputs at which the theorems below are evaluated. A signature of these
  examples verifies exactly when its bytes are \<open>[1]\<close>, and signing produces those
  bytes.\<close>

definition mkSig :: "signature_type \<Rightarrow> keyid \<Rightarrow> date \<Rightarrow> nat list \<Rightarrow> signature" where
  "mkSig t issuer c bytes =
     \<lparr>signatureType = t, issuerKeyId = issuer, created = c, expiration = None,
      keyValidity = None, verified = False, revoked = False,
      reasonForRevocationFlag = noReason, reasonForRevocationString = [],
      signatureData = bytes\<rparr>"

definition exPrimary :: key_packet where
  "exPrimary =
     \<lparr>tag = secretKey, keyId = ''P'', fingerprint = [1], keyCreated = 0, isDecrypted = True\<rparr>"

definition exPublicSub :: key_packet where
  "exPublicSub =
     \<lparr>tag = publicSubkey, keyId = ''S'', fingerprint = [2], keyCreated = 0, isDecrypted = False\<rparr>"

definition exSecretSub :: key_packet where
  "exSecretSub =
     \<lparr>tag = secretSubkey, keyId = ''S'', fingerprint = [2], keyCreated = 0, isDecrypted = True\<rparr>"

definition exOtherSub :: key_packet where
  "exOtherSub =
     \<lparr>tag = publicSubkey, keyId = ''T'', fingerprint = [3], keyCreated = 0, isDecrypted = False\<rparr>"

definition exV :: verifier where
  "exV sig k t c = (signatureData sig = [1])"

definition exSg :: signer where
  "exSg c k p d = [1]"

definition exE :: collaborators where
  "exE = spec_collaborators exV exSg 100"

definition exB1 :: signature where
  "exB1 = mkSig subkeyBinding ''P'' 5 [1]"

definition exB2 :: signature where
  "exB2 = mkSig subkeyBinding ''P'' 10 [0]"

definition exBQ :: signature where
  "exBQ = mkSig subkeyBinding ''Q'' 1 [1]"

definition exR0 :: signature where
  "exR0 = mkSig subkeyRevocation ''P'' 3 [0]"

definition exR1 :: signature where
  "exR1 = mkSig subkeyRevocation ''P'' 8 [1]"

definition exLocal :: sub_key where
  "exLocal =
     \<lparr>keyPacket = exPublicSub, bindingSignatures = [exBQ], revocationSignatures = []\<rparr>"

definition exSource :: sub_key where
  "exSource =
     \<lparr>keyPacket = exSecretSub, bindingSignatures = [exB2, exB1], revocationSignatures = [exR0]\<rparr>"

definition exForeign :: sub_key where
  "exForeign = SubKey exOtherSub"

definition exBexp :: signature where
  "exBexp = (mkSig subkeyBinding ''P'' 5 [1])\<lparr>expiration := Some 500, keyValidity := Some 1000\<rparr>"

definition exBQ2 :: signature where
  "exBQ2 = mkSig subkeyBinding ''Q'' 7 [1]"

definition exExpiring :: sub_key where
  "exExpiring =
     \<lparr>keyPacket = exPublicSub, bindingSignatures = [exBexp], revocationSignatures = []\<rparr>"

definition exUnbound :: sub_key where
  "exUnbound =
     \<lparr>keyPacket = exPublicSub, bindingSignatures = [exB2], revocationSignatures = []\<rparr>"

definition exRevokedKey :: sub_key where
  "exRevokedKey =
     \<lparr>keyPacket = exPublicSub, bindingSignatures = [exB1], revocationSignatures = [exR1]\<rparr>"

definition exNewer :: sub_key where
  "exNewer =
     \<lparr>keyPacket = exSecretSub, bindingSignatures = [exBQ2, exB1], revocationSignatures = [exR1]\<rparr>"

definition exContext :: data_to_verify where
  "exContext = \<lparr>key = exPrimary, bind = exPublicSub\<rparr>"

definition exTie :: signature where
  "exTie = mkSig subkeyBinding ''P'' 5 [0]"

definition exTarget :: sub_key where
  "exTarget =
     \<lparr>keyPacket = exPublicSub, bindingSignatures = [exBQ], revocationSignatures = [exR1]\<rparr>"

definition exMixed :: sub_key where
  "exMixed =
     \<lparr>keyPacket = exSecretSub, bindingSignatures = [exBQ2, exB2], revocationSignatures = [exR0]\<rparr>"

definition exHolder :: sub_key where
  "exHolder =
     \<lparr>keyPacket = exPublicSub, bindingSignatures = [exBQ, exB1], revocationSignatures = [exR1]\<rparr>"

definition exLater :: sub_key where
  "exLater =
     \<lparr>keyPacket = exPublicSub, bindingSignatures = [exB2], revocationSignatures = []\<rparr>"

definition exSame :: sub_key where
  "exSame =
     \<lparr>keyPacket = exPublicSub, bindingSignatures = [exTie], revocationSignatures = []\<rparr>"

section \<open>The loop by the shape of the list\<close>

lemma bindingLoop_Nil: "bindingLoop i [] src = None"
  by (simp add: bindingLoop.simps [of i])

lemma bindingLoop_Suc:
  "bindingLoop (Suc i) (b # bs) src = map_option ((#) b) (bindingLoop i bs src)"
proof (induction i bs src rule: bindingLoop.induct)
  case (1 i bs src)
  show ?case
  proof (cases "i < length bs \<and> issuerKeyId (bs ! i) \<noteq> issuerKeyId src")
    case True
    with 1 have "bindingLoop (Suc (i + 1)) (b # bs) src =
                   map_option ((#) b) (bindingLoop (i + 1) bs src)"
      by simp
    with True show ?thesis
      by (simp add: bindingLoop.simps [of "Suc i"] bindingLoop.simps [of i])
  next
    case False
    then show ?thesis
      by (auto simp add: bindingLoop.simps [of "Suc i"] bindingLoop.simps [of i])
  qed
qed

text \<open>The loop from index 0, by the shape of the list: what the head decides, and
  the tail otherwise.\<close>

lemma bindingLoop_Cons:
  "bindingLoop 0 (b # bs) src =
     (if issuerKeyId b = issuerKeyId src
      then Some (if created src > created b then src # bs else b # bs)
      else map_option ((#) b) (bindingLoop 0 bs src))"
  using bindingLoop_Suc [of 0 b bs src]
  by (simp add: bindingLoop.simps [of 0 "b # bs"])

text \<open>The equations with which the concrete inputs are evaluated.\<close>

lemmas example_defs =
  mkSig_def exPrimary_def exPublicSub_def exSecretSub_def exOtherSub_def exV_def exSg_def
  exE_def exB1_def exB2_def exBQ_def exR0_def exR1_def exLocal_def exSource_def exForeign_def
  exBexp_def exBQ2_def exExpiring_def exUnbound_def exRevokedKey_def exNewer_def
  exContext_def exTie_def exTarget_def exMixed_def
  exHolder_def exLater_def exSame_def

lemmas model_defs =
  SubKey_def hasSameFingerprintAs_def isRevoked_def verify_def getExpirationTime_def
  acceptsBinding_def bindingCheckFn_def revocationCheckFn_def update_def revoke_def
  bindingLoop_Nil bindingLoop_Cons revokesAlone_def loneIfRejected_def
  spec_collaborators_def spec_signature_verify_def spec_signature_getExpirationTime_def
  spec_signature_isExpired_def spec_packet_hasSameFingerprintAs_def validCandidate_def
  spec_getLatestValidSignature_def spec_isDataRevoked_def spec_getExpirationTime_def
  spec_isDataExpired_def spec_createSignaturePacket_def Let_def

section \<open>The binding loop\<close>

lemma bindingLoop_first:
  assumes "i < length bs" "issuerKeyId (bs ! i) = issuerKeyId src"
    "\<forall>j. k \<le> j \<and> j < i \<longrightarrow> issuerKeyId (bs ! j) \<noteq> issuerKeyId src" "k \<le> i"
  shows "bindingLoop k bs src =
           Some (if created src > created (bs ! i) then bs[i := src] else bs)"
  using assms
proof (induction k bs src rule: bindingLoop.induct)
  case (1 k bs src)
  show ?case
  proof (cases "k = i")
    case True
    with 1 show ?thesis by (simp add: bindingLoop.simps [of i])
  next
    case False
    with 1 have "k < i" by simp
    with 1 have ne: "issuerKeyId (bs ! k) \<noteq> issuerKeyId src" and kl: "k < length bs" by auto
    have "bindingLoop (k + 1) bs src =
            Some (if created src > created (bs ! i) then bs[i := src] else bs)"
      using 1 \<open>k < i\<close> kl ne by auto
    with ne kl show ?thesis by (simp add: bindingLoop.simps [of k])
  qed
qed

lemma find_None_issuers:
  "(List.find (sameIssuer k) bs = None) = (k \<notin> set (map issuerKeyId bs))"
  by (auto simp add: find_None_iff)


lemma bindingLoop_None_find:
  "(bindingLoop 0 bs src = None) = (List.find (sameIssuer (issuerKeyId src)) bs = None)"
  by (induction bs) (auto simp add: bindingLoop_Nil bindingLoop_Cons)

lemma bindingLoop_issuers:
  "bindingLoop 0 bs src = Some bs' \<Longrightarrow> map issuerKeyId bs' = map issuerKeyId bs"
  by (induction bs arbitrary: bs') (auto simp add: bindingLoop_Nil bindingLoop_Cons split: if_splits)


lemma bindingLoop_nth:
  "distinct (map issuerKeyId bs) \<Longrightarrow> bindingLoop 0 bs src = Some bs' \<Longrightarrow> i < length bs \<Longrightarrow>
     bs' ! i = retained (bs ! i) src"
proof (induction bs arbitrary: bs' i)
  case Nil
  then show ?case by simp
next
  case (Cons b bs)
  show ?case
  proof (cases "issuerKeyId b = issuerKeyId src")
    case True
    with Cons.prems show ?thesis
      by (cases i) (auto simp add: bindingLoop_Cons retained_def)
  next
    case False
    with Cons.prems obtain r where r: "bindingLoop 0 bs src = Some r" and bs': "bs' = b # r"
      by (auto simp add: bindingLoop_Cons)
    show ?thesis
    proof (cases i)
      case 0
      with False bs' show ?thesis by (simp add: retained_def)
    next
      case (Suc j)
      with Cons.prems Cons.IH [OF _ r, of j] bs' show ?thesis by simp
    qed
  qed
qed

section \<open>Merging one binding candidate\<close>

lemma bindingCheckFn_None:
  "bindingLoop 0 bs src = None \<Longrightarrow>
     bindingCheckFn E primaryKey dataToVerify bs src =
       (Inr (acceptsBinding E primaryKey dataToVerify src), bs)"
  by (simp add: bindingCheckFn_def)

lemma bindingCheckFn_Some:
  "bindingLoop 0 bs src = Some bs' \<Longrightarrow>
     bindingCheckFn E primaryKey dataToVerify bs src = (Inr False, bs')"
  by (simp add: bindingCheckFn_def)

lemma mergeOne_binding_unmatched:
  assumes "List.find (sameIssuer (issuerKeyId src)) bs = None"
  shows "spec_mergeOne (bindingCheckFn E primaryKey dataToVerify) bs src =
           (if acceptsBinding E primaryKey dataToVerify src then bs @ [src] else bs)"
proof -
  from assms have "bindingLoop 0 bs src = None" by (simp add: bindingLoop_None_find)
  then show ?thesis by (simp add: spec_mergeOne_def bindingCheckFn_None)
qed

lemma mergeOne_binding_matched:
  assumes "List.find (sameIssuer (issuerKeyId src)) bs = Some e"
  shows "\<exists>bs'. bindingLoop 0 bs src = Some bs'
           \<and> spec_mergeOne (bindingCheckFn E primaryKey dataToVerify) bs src = bs'"
proof -
  from assms have "bindingLoop 0 bs src \<noteq> None" by (simp add: bindingLoop_None_find)
  then obtain bs' where "bindingLoop 0 bs src = Some bs'" by auto
  then show ?thesis by (simp add: spec_mergeOne_def bindingCheckFn_Some)
qed





lemma mergeOne_binding_issuers:
  "map issuerKeyId (spec_mergeOne (bindingCheckFn E primaryKey dataToVerify) bs src) =
     (if issuerKeyId src \<notin> set (map issuerKeyId bs)
         \<and> acceptsBinding E primaryKey dataToVerify src
      then map issuerKeyId bs @ [issuerKeyId src] else map issuerKeyId bs)"
proof (cases "List.find (sameIssuer (issuerKeyId src)) bs")
  case None
  then have "issuerKeyId src \<notin> set (map issuerKeyId bs)"
    using find_None_issuers [of "issuerKeyId src" bs] by simp
  with None show ?thesis
    by (simp add: mergeOne_binding_unmatched)
next
  case (Some e)
  from mergeOne_binding_matched [OF Some, of E primaryKey dataToVerify]
  obtain bs' where l: "bindingLoop 0 bs src = Some bs'"
    and m: "spec_mergeOne (bindingCheckFn E primaryKey dataToVerify) bs src = bs'" by blast
  from Some have "issuerKeyId src \<in> set (map issuerKeyId bs)"
    using find_None_issuers [of "issuerKeyId src" bs] by simp
  with bindingLoop_issuers [OF l] m show ?thesis by simp
qed

lemma mergeOne_binding_distinct:
  "distinct (map issuerKeyId bs) \<Longrightarrow>
     distinct (map issuerKeyId (spec_mergeOne (bindingCheckFn E primaryKey dataToVerify) bs src))"
  by (simp add: mergeOne_binding_issuers)

lemma mergeOne_binding_length:
  "length bs \<le> length (spec_mergeOne (bindingCheckFn E primaryKey dataToVerify) bs src)"
  using arg_cong [OF mergeOne_binding_issuers [of E primaryKey dataToVerify bs src], of length]
  by (simp split: if_splits)

lemma mergeOne_binding_nth:
  assumes "distinct (map issuerKeyId bs)" "i < length bs"
  shows "spec_mergeOne (bindingCheckFn E primaryKey dataToVerify) bs src ! i
           = retained (bs ! i) src"
proof (cases "List.find (sameIssuer (issuerKeyId src)) bs")
  case None
  with assms have "issuerKeyId (bs ! i) \<noteq> issuerKeyId src"
    by (auto simp add: find_None_iff)
  with None assms show ?thesis
    by (auto simp add: mergeOne_binding_unmatched retained_def nth_append)
next
  case (Some e)
  from mergeOne_binding_matched [OF Some, of E primaryKey dataToVerify]
  obtain bs' where l: "bindingLoop 0 bs src = Some bs'"
    and m: "spec_mergeOne (bindingCheckFn E primaryKey dataToVerify) bs src = bs'" by blast
  from bindingLoop_nth [OF assms(1) l assms(2)] m show ?thesis by simp
qed

section \<open>Merging a list of candidates\<close>

lemma merge_fixed:
  "(\<forall>s\<in>set source. spec_mergeOne checkFn dest s = dest) \<Longrightarrow>
     foldl (spec_mergeOne checkFn) dest source = dest"
  by (induction source) auto





lemma loneIfRejected_accepted:
  "\<forall>s\<in>set source. acceptsBinding E primaryKey dataToVerify s \<Longrightarrow>
     loneIfRejected E primaryKey dataToVerify source"
  by (simp add: loneIfRejected_def)

lemma merge_binding_distinct:
  "distinct (map issuerKeyId bs) \<Longrightarrow>
     distinct (map issuerKeyId
       (foldl (spec_mergeOne (bindingCheckFn E primaryKey dataToVerify)) bs source))"
  by (induction source arbitrary: bs) (simp_all add: mergeOne_binding_distinct)

lemma merge_binding_nth:
  "distinct (map issuerKeyId bs) \<Longrightarrow> i < length bs \<Longrightarrow>
     foldl (spec_mergeOne (bindingCheckFn E primaryKey dataToVerify)) bs source ! i
       = foldl retained (bs ! i) source
     \<and> i < length (foldl (spec_mergeOne (bindingCheckFn E primaryKey dataToVerify)) bs source)"
proof (induction source arbitrary: bs)
  case Nil
  then show ?case by simp
next
  case (Cons a source)
  let ?bs1 = "spec_mergeOne (bindingCheckFn E primaryKey dataToVerify) bs a"
  have d: "distinct (map issuerKeyId ?bs1)"
    using Cons.prems by (simp add: mergeOne_binding_distinct)
  have l: "i < length ?bs1"
    using Cons.prems mergeOne_binding_length [of bs E primaryKey dataToVerify a] by simp
  from Cons.IH [OF d l]
    mergeOne_binding_nth [OF Cons.prems(1) Cons.prems(2), of E primaryKey dataToVerify a]
  show ?case by simp
qed

lemma foldl_retained_issuer: "issuerKeyId (foldl retained b source) = issuerKeyId b"
  by (induction source arbitrary: b) (simp_all add: retained_def)

lemma foldl_retained_mono: "created b \<le> created (foldl retained b source)"
proof (induction source arbitrary: b)
  case Nil
  then show ?case by simp
next
  case (Cons a source)
  have "created b \<le> created (retained b a)" by (simp add: retained_def)
  with Cons [of "retained b a"] show ?case by simp
qed

lemma foldl_retained_latest:
  "s \<in> set source \<Longrightarrow> issuerKeyId s = issuerKeyId b \<Longrightarrow>
     created s \<le> created (foldl retained b source)"
proof (induction source arbitrary: b)
  case Nil
  then show ?case by simp
next
  case (Cons a source)
  show ?case
  proof (cases "s = a")
    case True
    have "created a \<le> created (retained b a)" using Cons.prems True by (simp add: retained_def)
    with foldl_retained_mono [of "retained b a" source] True show ?thesis by simp
  next
    case False
    with Cons.prems have "s \<in> set source" by simp
    moreover have "issuerKeyId s = issuerKeyId (retained b a)"
      using Cons.prems by (simp add: retained_def)
    ultimately show ?thesis using Cons.IH [of "retained b a"] by simp
  qed
qed

lemma foldl_retained_member:
  "foldl retained b source = b \<or> foldl retained b source \<in> set source"
proof (induction source arbitrary: b)
  case Nil
  then show ?case by simp
next
  case (Cons a source)
  from Cons [of "retained b a"] show ?case by (auto simp add: retained_def)
qed

section \<open>Merging revocation candidates\<close>

lemma mergeOne_revocation:
  "spec_mergeOne (revocationCheckFn E primaryKey dataToVerify) rs r =
     (if revokesAlone E primaryKey dataToVerify r then rs @ [r] else rs)"
  by (simp add: spec_mergeOne_def revocationCheckFn_def revokesAlone_def)


lemma merge_revocation_none:
  "\<forall>r\<in>set source. \<not> revokesAlone E primaryKey dataToVerify r \<Longrightarrow>
     foldl (spec_mergeOne (revocationCheckFn E primaryKey dataToVerify)) rs source = rs"
  by (rule merge_fixed) (simp add: mergeOne_revocation)

section \<open>The loop of the specification\<close>

text \<open>With a check that never throws, the loop returns without error the list that
  the steps build one after the other.\<close>

lemma spec_merge_total:
  assumes "\<And>dest s. \<exists>accepted. fst (checkFn dest s) = Inr accepted"
  shows "spec_mergeSignatures source dest checkFn =
           (Inr (), foldl (spec_mergeOne checkFn) dest source)"
proof (induction source arbitrary: dest)
  case Nil
  then show ?case by simp
next
  case (Cons a source)
  from assms [of dest a] obtain accepted where "fst (checkFn dest a) = Inr accepted"
    by blast
  then obtain dest' where c: "checkFn dest a = (Inr accepted, dest')"
    by (cases "checkFn dest a") auto
  have "spec_mergeSignatures (a # source) dest checkFn =
          spec_mergeSignatures source (spec_mergeOne checkFn dest a) checkFn"
    by (simp add: c spec_mergeOne_def)
  with Cons show ?case by simp
qed


lemma bindingCheckFn_total:
  "\<exists>accepted. fst (bindingCheckFn E primaryKey dataToVerify bs src) = Inr accepted"
  by (auto simp add: bindingCheckFn_def split: option.splits)

lemma merge_binding_spec:
  "spec_mergeSignatures source bs (bindingCheckFn E primaryKey dataToVerify) =
     (Inr (), foldl (spec_mergeOne (bindingCheckFn E primaryKey dataToVerify)) bs source)"
  by (rule spec_merge_total) (rule bindingCheckFn_total)

text \<open>The steps up to and with the candidate at position \<open>j\<close>.\<close>

lemma foldl_take_Suc:
  "j < length source \<Longrightarrow>
     foldl f dest (take (Suc j) source) = f (foldl f dest (take j source)) (source ! j)"
  by (simp add: take_Suc_conv_app_nth)

section \<open>The methods with the specification's collaborators\<close>

lemma hasSameFingerprintAs_spec:
  "hasSameFingerprintAs (spec_collaborators V Sg now) this subKey =
     (fingerprint (keyPacket this) = fingerprint (keyPacket subKey))"
  by (simp add: hasSameFingerprintAs_def spec_collaborators_def
      spec_packet_hasSameFingerprintAs_def)

lemma revocationCheckFn_spec_total:
  "\<exists>accepted. fst (revocationCheckFn (spec_collaborators V Sg now) primaryKey dataToVerify rs r)
     = Inr accepted"
  by (simp add: revocationCheckFn_def spec_collaborators_def spec_isDataRevoked_def Let_def)

lemma merge_revocation_spec:
  "spec_mergeSignatures source rs
     (revocationCheckFn (spec_collaborators V Sg now) primaryKey dataToVerify) =
     (Inr (),
      foldl (spec_mergeOne (revocationCheckFn (spec_collaborators V Sg now) primaryKey
               dataToVerify)) rs source)"
  by (rule spec_merge_total) (rule revocationCheckFn_spec_total)

lemma update_spec:
  assumes "fingerprint (keyPacket this) = fingerprint (keyPacket subKey)"
  shows "update (spec_collaborators V Sg now) this subKey primaryKey =
    (let E = spec_collaborators V Sg now;
         kp = (if tag (keyPacket this) = publicSubkey \<and> tag (keyPacket subKey) = secretSubkey
               then keyPacket subKey else keyPacket this);
         dataToVerify = \<lparr>key = primaryKey, bind = kp\<rparr>
     in (Inr (),
         \<lparr>keyPacket = kp,
          bindingSignatures =
            foldl (spec_mergeOne (bindingCheckFn E primaryKey dataToVerify))
              (bindingSignatures this) (bindingSignatures subKey),
          revocationSignatures =
            foldl (spec_mergeOne (revocationCheckFn E primaryKey dataToVerify))
              (revocationSignatures this) (revocationSignatures subKey)\<rparr>))"
proof -
  have m: "mergeSignatures (spec_collaborators V Sg now) = spec_mergeSignatures"
    and f: "packet_hasSameFingerprintAs (spec_collaborators V Sg now)
              = spec_packet_hasSameFingerprintAs"
    by (simp_all add: spec_collaborators_def)
  show ?thesis
    using assms
    by (simp add: update_def hasSameFingerprintAs_def m f spec_packet_hasSameFingerprintAs_def
        merge_binding_spec merge_revocation_spec Let_def)
qed

text \<open>The selection of the specification fails exactly when no signature of the list
  is a candidate: none of the type, none that verifies, all expired, or the list
  empty.\<close>

lemma spec_selection_fails:
  "(spec_getLatestValidSignature V sigs primaryKey expectedType dataToVerify d
      = Inl (NoValidSignature expectedType))
   = (\<forall>s\<in>set sigs. \<not> validCandidate V primaryKey expectedType dataToVerify d s)"
proof (cases "filter (validCandidate V primaryKey expectedType dataToVerify d) sigs")
  case Nil
  then show ?thesis
    by (simp add: spec_getLatestValidSignature_def filter_empty_conv)
next
  case (Cons c cs)
  then have "c \<in> set (filter (validCandidate V primaryKey expectedType dataToVerify d) sigs)"
    by simp
  then have "\<exists>s\<in>set sigs. validCandidate V primaryKey expectedType dataToVerify d s"
    by auto
  with Cons show ?thesis by (simp add: spec_getLatestValidSignature_def)
qed

lemma isRevoked_spec:
  "isRevoked (spec_collaborators V Sg now) this primaryKey sig None d =
     Inr (\<exists>r\<in>set (revocationSignatures this). signatureType r = subkeyRevocation
        \<and> V r primaryKey subkeyRevocation \<lparr>key = primaryKey, bind = keyPacket this\<rparr>
        \<and> created r \<le> d)"
  by (auto simp add: isRevoked_def spec_collaborators_def spec_isDataRevoked_def
      spec_signature_verify_def list_ex_iff)

lemma verify_spec_revoked:
  assumes "spec_getLatestValidSignature V (bindingSignatures this) primaryKey subkeyBinding
             \<lparr>key = primaryKey, bind = keyPacket this\<rparr> d = Inr b"
    and "revoked b
         \<or> (\<exists>r\<in>set (revocationSignatures this). signatureType r = subkeyRevocation
               \<and> V r primaryKey subkeyRevocation \<lparr>key = primaryKey, bind = keyPacket this\<rparr>
               \<and> created r \<le> d)"
  shows "verify (spec_collaborators V Sg now) this primaryKey d = Inl Revoked"
proof -
  have "getLatestValidSignature (spec_collaborators V Sg now) (bindingSignatures this) primaryKey
          subkeyBinding \<lparr>key = primaryKey, bind = keyPacket this\<rparr> d = Inr b"
    using assms(1) by (simp add: spec_collaborators_def)
  moreover have
    "revoked b \<or> isRevoked (spec_collaborators V Sg now) this primaryKey (Some b) None d
        = Inr True"
    using assms(2) by (auto simp add: isRevoked_spec)
  ultimately show ?thesis by (auto simp add: verify_def)
qed


lemma spec_isDataRevoked_rejects:
  "spec_signature_verify V r primaryKey expectedType dataToVerify = Inl VerificationFailure \<Longrightarrow>
     spec_isDataRevoked V now primaryKey expectedType dataToVerify [r] None None None = Inr False"
  by (simp add: spec_isDataRevoked_def)

text \<open>With the collaborators of the specification, \<open>update\<close> adds nothing from a source
  whose binding signatures are all of issuers that the target does not hold, not
  flagged verified and failing verification, and whose revocation signatures all fail
  verification: every such candidate is dropped and \<open>update\<close> returns without error.\<close>

lemma update_spec_drops_failed:
  assumes fp: "fingerprint (keyPacket this) = fingerprint (keyPacket subKey)"
    and ctx: "ctx = \<lparr>key = primaryKey,
                     bind = (if tag (keyPacket this) = publicSubkey
                                \<and> tag (keyPacket subKey) = secretSubkey
                             then keyPacket subKey else keyPacket this)\<rparr>"
    and failing: "\<forall>s\<in>set (bindingSignatures subKey).
        issuerKeyId s \<notin> set (map issuerKeyId (bindingSignatures this)) \<and> \<not> verified s
        \<and> signature_verify (spec_collaborators V Sg now) s primaryKey subkeyBinding ctx
            = Inl VerificationFailure"
    and failing': "\<forall>r\<in>set (revocationSignatures subKey).
        signature_verify (spec_collaborators V Sg now) r primaryKey subkeyRevocation ctx
          = Inl VerificationFailure"
  shows "update (spec_collaborators V Sg now) this subKey primaryKey =
           (Inr (), this\<lparr>keyPacket := bind ctx\<rparr>)"
proof -
  let ?E = "spec_collaborators V Sg now"
  have b: "foldl (spec_mergeOne (bindingCheckFn ?E primaryKey ctx))
             (bindingSignatures this) (bindingSignatures subKey) = bindingSignatures this"
  proof (rule merge_fixed, rule ballI)
    fix s assume "s \<in> set (bindingSignatures subKey)"
    with failing have
      "List.find (sameIssuer (issuerKeyId s)) (bindingSignatures this) = None"
      "\<not> acceptsBinding ?E primaryKey ctx s"
      by (simp_all add: find_None_issuers acceptsBinding_def)
    then show "spec_mergeOne (bindingCheckFn ?E primaryKey ctx) (bindingSignatures this) s
                 = bindingSignatures this"
      by (simp add: mergeOne_binding_unmatched)
  qed
  have "\<forall>r\<in>set (revocationSignatures subKey). \<not> revokesAlone ?E primaryKey ctx r"
    using failing'
    by (simp add: revokesAlone_def spec_collaborators_def spec_isDataRevoked_rejects)
  then have r: "foldl (spec_mergeOne (revocationCheckFn ?E primaryKey ctx))
             (revocationSignatures this) (revocationSignatures subKey)
           = revocationSignatures this"
    by (rule merge_revocation_none)
  show ?thesis
    unfolding update_spec [OF fp, of V Sg now primaryKey] Let_def
    using b r by (simp add: ctx)
qed

lemma js_less_min:
  "expiry_le (if js_less a b then a else b) a \<and> expiry_le (if js_less a b then a else b) b"
  by (cases a; cases b) auto

lemma js_less_Never: "((if js_less a b then a else b) = Never) = (a = Never \<and> b = Never)"
  by (cases a; cases b) auto

section \<open>Expiration\<close>

text \<open>
  Claim C1. Whenever the selection of the latest valid binding signature succeeds,
  \<open>getExpirationTime\<close> returns one of the two candidates (the key-level expiration of
  \<^verbatim>\<open>helper.getExpirationTime\<close> and the expiration the binding signature embeds), and
  the one it returns is at or before both in the ordering where \<open>Never\<close> is later than
  every date; it is \<open>Never\<close> exactly when both are. This holds whatever the
  collaborators compute.
\<close>

theorem getExpirationTime_earlier:
  assumes "getLatestValidSignature E (bindingSignatures this) primaryKey subkeyBinding
             \<lparr>key = primaryKey, bind = keyPacket this\<rparr> d = Inr b"
  shows "\<exists>r. getExpirationTime E this primaryKey d = Some r
     \<and> (r = helper_getExpirationTime E (keyPacket this) b \<or> r = signature_getExpirationTime E b)
     \<and> expiry_le r (helper_getExpirationTime E (keyPacket this) b)
     \<and> expiry_le r (signature_getExpirationTime E b)
     \<and> (r = Never) = (helper_getExpirationTime E (keyPacket this) b = Never
                       \<and> signature_getExpirationTime E b = Never)"
  using assms
    js_less_min [of "helper_getExpirationTime E (keyPacket this) b"
      "signature_getExpirationTime E b"]
    js_less_Never [of "helper_getExpirationTime E (keyPacket this) b"
      "signature_getExpirationTime E b"]
  by (simp add: getExpirationTime_def Let_def)

theorem getExpirationTime_earlier_witness:
  "getLatestValidSignature exE (bindingSignatures exExpiring) exPrimary subkeyBinding
     \<lparr>key = exPrimary, bind = keyPacket exExpiring\<rparr> 20 = Inr exBexp
   \<and> helper_getExpirationTime exE (keyPacket exExpiring) exBexp = At 1000
   \<and> signature_getExpirationTime exE exBexp = At 500
   \<and> getExpirationTime exE exExpiring exPrimary 20 = Some (At 500)
   \<and> expiry_le (At 500) (At 1000)"
proof -
  have sel: "getLatestValidSignature exE (bindingSignatures exExpiring) exPrimary subkeyBinding
     \<lparr>key = exPrimary, bind = keyPacket exExpiring\<rparr> 20 = Inr exBexp"
    by (simp add: example_defs model_defs)
  from getExpirationTime_earlier [OF sel] sel show ?thesis
    by (simp add: example_defs model_defs)
qed

section \<open>No valid binding signature\<close>

text \<open>
  Claim C2. When the selection finds no valid binding signature as of the date (it
  fails with \<open>NoValidBindingSignature\<close>), \<open>getExpirationTime\<close> returns \<^verbatim>\<open>null\<close>, a
  value and not an error, and \<open>verify\<close> on the same subkey and date fails with
  \<open>NoValidBindingSignature\<close>. This holds for every implementation of the selection;
  \<open>spec_selection_fails\<close> says when the selection of the specification fails.
\<close>

theorem no_valid_binding_signature:
  assumes "getLatestValidSignature E (bindingSignatures this) primaryKey subkeyBinding
             \<lparr>key = primaryKey, bind = keyPacket this\<rparr> d = Inl NoValidBindingSignature"
  shows "getExpirationTime E this primaryKey d = None
     \<and> verify E this primaryKey d = Inl NoValidBindingSignature"
  using assms by (simp add: getExpirationTime_def verify_def)

theorem no_valid_binding_signature_witness:
  "getLatestValidSignature exE (bindingSignatures exUnbound) exPrimary subkeyBinding
     \<lparr>key = exPrimary, bind = keyPacket exUnbound\<rparr> 20 = Inl NoValidBindingSignature
   \<and> getExpirationTime exE exUnbound exPrimary 20 = None
   \<and> verify exE exUnbound exPrimary 20 = Inl NoValidBindingSignature"
proof -
  have none: "getLatestValidSignature exE (bindingSignatures exUnbound) exPrimary subkeyBinding
     \<lparr>key = exPrimary, bind = keyPacket exUnbound\<rparr> 20 = Inl NoValidBindingSignature"
    by (simp add: example_defs model_defs)
  from no_valid_binding_signature [OF none] none show ?thesis by simp
qed

section \<open>Revocation\<close>

text \<open>
  Claim C3. With the selection and the revocation check of the specification: if a
  binding signature is selected, and its own \<open>revoked\<close> flag is set or some signature
  of the revocation list is of the subkey revocation type, verifies against the
  context of the primary key and this subkey, and was created at or before the date,
  then \<open>verify\<close> fails with \<open>Revoked\<close>. Nothing is asked of the creation time of the
  selected binding signature.
\<close>

theorem verify_revoked:
  assumes "spec_getLatestValidSignature V (bindingSignatures this) primaryKey subkeyBinding
             \<lparr>key = primaryKey, bind = keyPacket this\<rparr> d = Inr b"
    and "revoked b
         \<or> (\<exists>r\<in>set (revocationSignatures this). signatureType r = subkeyRevocation
               \<and> V r primaryKey subkeyRevocation \<lparr>key = primaryKey, bind = keyPacket this\<rparr>
               \<and> created r \<le> d)"
  shows "verify (spec_collaborators V Sg now) this primaryKey d = Inl Revoked"
  using assms by (rule verify_spec_revoked)

theorem verify_revoked_witness:
  "spec_getLatestValidSignature exV (bindingSignatures exRevokedKey) exPrimary subkeyBinding
     \<lparr>key = exPrimary, bind = keyPacket exRevokedKey\<rparr> 20 = Inr exB1
   \<and> exR1 \<in> set (revocationSignatures exRevokedKey)
   \<and> signatureType exR1 = subkeyRevocation
   \<and> exV exR1 exPrimary subkeyRevocation \<lparr>key = exPrimary, bind = keyPacket exRevokedKey\<rparr>
   \<and> created exR1 \<le> 20
   \<and> verify exE exRevokedKey exPrimary 20 = Inl Revoked"
proof -
  have sel: "spec_getLatestValidSignature exV (bindingSignatures exRevokedKey) exPrimary
     subkeyBinding \<lparr>key = exPrimary, bind = keyPacket exRevokedKey\<rparr> 20 = Inr exB1"
    by (simp add: example_defs model_defs)
  have rev: "revoked exB1
     \<or> (\<exists>r\<in>set (revocationSignatures exRevokedKey). signatureType r = subkeyRevocation
           \<and> exV r exPrimary subkeyRevocation
                \<lparr>key = exPrimary, bind = keyPacket exRevokedKey\<rparr>
           \<and> created r \<le> 20)"
    by (simp add: example_defs)
  have res: "verify exE exRevokedKey exPrimary 20 = Inl Revoked"
    unfolding exE_def by (rule verify_revoked [OF sel rev])
  have "exR1 \<in> set (revocationSignatures exRevokedKey)
     \<and> signatureType exR1 = subkeyRevocation
     \<and> exV exR1 exPrimary subkeyRevocation \<lparr>key = exPrimary, bind = keyPacket exRevokedKey\<rparr>
     \<and> created exR1 \<le> 20"
    by (simp add: example_defs)
  with sel res show ?thesis by simp
qed

section \<open>Fingerprint mismatch\<close>

text \<open>
  Claim C4. When the fingerprints of the two subkeys differ, \<open>update\<close> fails with
  \<open>FingerprintMismatch\<close> and the target is what it was: key packet, binding
  signatures and revocation signatures.
\<close>

theorem update_fingerprint_mismatch:
  assumes "\<not> hasSameFingerprintAs E this subKey"
  shows "update E this subKey primaryKey = (Inl FingerprintMismatch, this)"
  using assms by (simp add: update_def)

theorem update_fingerprint_mismatch_witness:
  "\<not> hasSameFingerprintAs exE exLocal exForeign
   \<and> update exE exLocal exForeign exPrimary = (Inl FingerprintMismatch, exLocal)"
proof -
  have differ: "\<not> hasSameFingerprintAs exE exLocal exForeign"
    by (simp add: example_defs model_defs)
  with update_fingerprint_mismatch [OF differ, of exPrimary] show ?thesis by simp
qed

section \<open>Key material\<close>

text \<open>
  Claim C5. After \<open>update\<close> the target holds the source's key packet when the
  fingerprints match, the target's packet is a public subkey packet and the source's a
  secret subkey packet, and its own packet in every other case; so a secret packet is
  never replaced.
\<close>

theorem update_key_material:
  "keyPacket (snd (update E this subKey primaryKey)) =
     (if hasSameFingerprintAs E this subKey \<and> tag (keyPacket this) = publicSubkey
         \<and> tag (keyPacket subKey) = secretSubkey
      then keyPacket subKey else keyPacket this)
   \<and> (tag (keyPacket this) = secretSubkey \<or> tag (keyPacket this) = secretKey
        \<longrightarrow> keyPacket (snd (update E this subKey primaryKey)) = keyPacket this)"
  by (auto simp add: update_def Let_def split: sum.splits)

theorem update_key_material_witness:
  "hasSameFingerprintAs exE exLocal exSource
   \<and> tag (keyPacket exLocal) = publicSubkey \<and> tag (keyPacket exSource) = secretSubkey
   \<and> keyPacket (snd (update exE exLocal exSource exPrimary)) = exSecretSub
   \<and> tag (keyPacket exSource) = secretSubkey
   \<and> keyPacket (snd (update exE exSource exLocal exPrimary)) = exSecretSub"
  using update_key_material [of exE exLocal exSource exPrimary]
    update_key_material [of exE exSource exLocal exPrimary]
  by (simp add: example_defs hasSameFingerprintAs_def spec_collaborators_def
      spec_packet_hasSameFingerprintAs_def)

section \<open>One binding signature per issuer\<close>

text \<open>
  Claim C6. With the merge of the specification: if the issuers of the target's
  binding signatures are pairwise distinct before \<open>update\<close>, they are after it. When
  the fingerprints match, the entry at each position of the old list is afterwards the
  one \<open>retained\<close> from it and the source's candidates taken in order (a candidate of
  the entry's issuer replaces it when created strictly later); so it has the issuer of
  the old entry, is that entry or a candidate of the source, and is created no earlier
  than the old entry and than every candidate of that issuer.
\<close>

theorem update_one_binding_per_issuer:
  assumes "distinct (map issuerKeyId (bindingSignatures this))"
  shows "distinct (map issuerKeyId (bindingSignatures
           (snd (update (spec_collaborators V Sg now) this subKey primaryKey))))
     \<and> (hasSameFingerprintAs (spec_collaborators V Sg now) this subKey \<longrightarrow>
          (\<forall>i<length (bindingSignatures this).
             bindingSignatures (snd (update (spec_collaborators V Sg now) this subKey primaryKey)) ! i
               = foldl retained (bindingSignatures this ! i) (bindingSignatures subKey)
             \<and> issuerKeyId (bindingSignatures
                   (snd (update (spec_collaborators V Sg now) this subKey primaryKey)) ! i)
               = issuerKeyId (bindingSignatures this ! i)
             \<and> created (bindingSignatures this ! i)
               \<le> created (bindingSignatures
                   (snd (update (spec_collaborators V Sg now) this subKey primaryKey)) ! i)
             \<and> (\<forall>s\<in>set (bindingSignatures subKey).
                   issuerKeyId s = issuerKeyId (bindingSignatures this ! i) \<longrightarrow>
                   created s \<le> created (bindingSignatures
                     (snd (update (spec_collaborators V Sg now) this subKey primaryKey)) ! i))))"
proof (cases "hasSameFingerprintAs (spec_collaborators V Sg now) this subKey")
  case False
  with assms show ?thesis by (simp add: update_def)
next
  case True
  then have eq: "fingerprint (keyPacket this) = fingerprint (keyPacket subKey)"
    by (simp add: hasSameFingerprintAs_spec)
  show ?thesis
    unfolding update_spec [OF eq] Let_def
    using True assms merge_binding_distinct [OF assms] merge_binding_nth [OF assms]
      foldl_retained_issuer foldl_retained_mono foldl_retained_latest
    by simp
qed

theorem update_one_binding_per_issuer_witness:
  "distinct (map issuerKeyId (bindingSignatures exLocal))
   \<and> hasSameFingerprintAs exE exLocal exNewer
   \<and> distinct (map issuerKeyId (bindingSignatures (snd (update exE exLocal exNewer exPrimary))))
   \<and> bindingSignatures (snd (update exE exLocal exNewer exPrimary)) ! 0
       = foldl retained (bindingSignatures exLocal ! 0) (bindingSignatures exNewer)
   \<and> bindingSignatures exLocal = [exBQ]
   \<and> bindingSignatures (snd (update exE exLocal exNewer exPrimary)) = [exBQ2, exB1]"
proof -
  have one: "distinct (map issuerKeyId (bindingSignatures exLocal))"
    by (simp add: example_defs)
  from update_one_binding_per_issuer [OF one, of exV exSg 100 exNewer exPrimary]
  show ?thesis by (simp add: example_defs model_defs)
qed

section \<open>Idempotence\<close>




section \<open>Verification failure\<close>



section \<open>Replacement without verification\<close>

text \<open>The binding signatures that \<open>update\<close> leaves, with the merge of the specification
  and whatever the other collaborators are.\<close>

lemma update_bindings:
  assumes "mergeSignatures E = spec_mergeSignatures" "hasSameFingerprintAs E this subKey"
  shows "bindingSignatures (snd (update E this subKey primaryKey)) =
     foldl (spec_mergeOne (bindingCheckFn E primaryKey
              \<lparr>key = primaryKey,
               bind = (if tag (keyPacket this) = publicSubkey
                          \<and> tag (keyPacket subKey) = secretSubkey
                       then keyPacket subKey else keyPacket this)\<rparr>))
       (bindingSignatures this) (bindingSignatures subKey)"
  using assms
  by (simp add: update_def Let_def merge_binding_spec split: sum.splits)

text \<open>
  Claim C10. During \<open>update\<close> with the merge of the specification: let \<open>before\<close> be the
  binding signatures of the target when the source's candidates before position \<open>j\<close>
  have been merged, \<open>after\<close> those when the candidate \<open>src\<close> at position \<open>j\<close> has been
  merged too, and \<open>i\<close> the index of the first entry of \<open>before\<close> with the issuer of
  \<open>src\<close>. If \<open>src\<close> was created strictly later than that entry, \<open>after\<close> is \<open>before\<close>
  with \<open>src\<close> written over the entry; if at the same time, \<open>after\<close> is \<open>before\<close>: the
  entry is kept and \<open>src\<close> is nowhere added. No verification enters: the collaborator
  record is arbitrary but for its merge, and the callback answers \<^verbatim>\<open>false\<close> with the
  same list for every collaborator record, key and context.
\<close>

theorem binding_replaced_unverified:
  assumes merge: "mergeSignatures E = spec_mergeSignatures"
    and fp: "hasSameFingerprintAs E this subKey"
    and j: "j < length (bindingSignatures subKey)"
    and src: "src = bindingSignatures subKey ! j"
    and before: "before = bindingSignatures (snd (update E this
                   (subKey\<lparr>bindingSignatures := take j (bindingSignatures subKey)\<rparr>) primaryKey))"
    and after: "after = bindingSignatures (snd (update E this
                   (subKey\<lparr>bindingSignatures := take (Suc j) (bindingSignatures subKey)\<rparr>)
                   primaryKey))"
    and i: "i < length before" "issuerKeyId (before ! i) = issuerKeyId src"
      "\<forall>k<i. issuerKeyId (before ! k) \<noteq> issuerKeyId src"
  shows "(created src > created (before ! i) \<longrightarrow> after = before[i := src])
     \<and> (created src = created (before ! i) \<longrightarrow> after = before)
     \<and> bindingCheckFn E' primaryKey' dataToVerify' before src =
         (Inr False, if created src > created (before ! i) then before[i := src] else before)"
proof -
  let ?ctx = "\<lparr>key = primaryKey,
               bind = (if tag (keyPacket this) = publicSubkey
                          \<and> tag (keyPacket subKey) = secretSubkey
                       then keyPacket subKey else keyPacket this)\<rparr>"
  let ?B = "spec_mergeOne (bindingCheckFn E primaryKey ?ctx)"
  have fp': "hasSameFingerprintAs E this (subKey\<lparr>bindingSignatures := xs\<rparr>)" for xs
    using fp by (simp add: hasSameFingerprintAs_def)
  have b: "before = foldl ?B (bindingSignatures this) (take j (bindingSignatures subKey))"
    unfolding before using update_bindings [OF merge fp'] by simp
  have a: "after = foldl ?B (bindingSignatures this) (take (Suc j) (bindingSignatures subKey))"
    unfolding after using update_bindings [OF merge fp'] by simp
  have step: "after = ?B before src"
    unfolding a b src using j by (rule foldl_take_Suc)
  have loop: "bindingLoop 0 before src =
                Some (if created src > created (before ! i) then before[i := src] else before)"
    using bindingLoop_first [of i before src 0] i by simp
  have "?B before src = (if created src > created (before ! i) then before[i := src] else before)"
    using loop by (simp add: spec_mergeOne_def bindingCheckFn_def)
  with step loop show ?thesis by (simp add: bindingCheckFn_def)
qed

theorem binding_replaced_unverified_witness:
  "hasSameFingerprintAs exE exHolder exLater
   \<and> bindingSignatures (snd (update exE exHolder (exLater\<lparr>bindingSignatures := []\<rparr>) exPrimary))
       = [exBQ, exB1]
   \<and> issuerKeyId exBQ \<noteq> issuerKeyId exB2 \<and> issuerKeyId exB1 = issuerKeyId exB2
   \<and> created exB2 > created exB1
   \<and> signature_verify exE exB2 exPrimary subkeyBinding exContext = Inl VerificationFailure
   \<and> bindingSignatures (snd (update exE exHolder exLater exPrimary)) = [exBQ, exB2]
   \<and> issuerKeyId exB1 = issuerKeyId exTie \<and> created exTie = created exB1
   \<and> bindingSignatures (snd (update exE exHolder exSame exPrimary)) = [exBQ, exB1]"
proof -
  have merge: "mergeSignatures exE = spec_mergeSignatures"
    by (simp add: exE_def spec_collaborators_def)
  have fp: "hasSameFingerprintAs exE exHolder exLater"
    and fp': "hasSameFingerprintAs exE exHolder exSame"
    by (simp_all add: example_defs model_defs)
  have j: "0 < length (bindingSignatures exLater)" and j': "0 < length (bindingSignatures exSame)"
    by (simp_all add: example_defs)
  have src: "exB2 = bindingSignatures exLater ! 0" and src': "exTie = bindingSignatures exSame ! 0"
    by (simp_all add: example_defs)
  have before: "[exBQ, exB1] = bindingSignatures (snd (update exE exHolder
                   (exLater\<lparr>bindingSignatures := take 0 (bindingSignatures exLater)\<rparr>) exPrimary))"
    and before': "[exBQ, exB1] = bindingSignatures (snd (update exE exHolder
                   (exSame\<lparr>bindingSignatures := take 0 (bindingSignatures exSame)\<rparr>) exPrimary))"
    by (simp_all add: example_defs model_defs)
  have after: "bindingSignatures (snd (update exE exHolder exLater exPrimary)) =
                 bindingSignatures (snd (update exE exHolder
                   (exLater\<lparr>bindingSignatures := take (Suc 0) (bindingSignatures exLater)\<rparr>)
                   exPrimary))"
    and after': "bindingSignatures (snd (update exE exHolder exSame exPrimary)) =
                 bindingSignatures (snd (update exE exHolder
                   (exSame\<lparr>bindingSignatures := take (Suc 0) (bindingSignatures exSame)\<rparr>)
                   exPrimary))"
    by (simp_all add: example_defs)
  have i: "(1::nat) < length [exBQ, exB1]" by simp
  have same: "issuerKeyId ([exBQ, exB1] ! 1) = issuerKeyId exB2"
    and same': "issuerKeyId ([exBQ, exB1] ! 1) = issuerKeyId exTie"
    by (simp_all add: example_defs)
  have first: "\<forall>k<1. issuerKeyId ([exBQ, exB1] ! k) \<noteq> issuerKeyId exB2"
    and first': "\<forall>k<1. issuerKeyId ([exBQ, exB1] ! k) \<noteq> issuerKeyId exTie"
    by (simp_all add: example_defs)
  have f1: "issuerKeyId exBQ \<noteq> issuerKeyId exB2"
    and f2: "issuerKeyId exB1 = issuerKeyId exB2"
    and f3: "created exB2 > created exB1"
    and f4: "signature_verify exE exB2 exPrimary subkeyBinding exContext
               = Inl VerificationFailure"
    and f5: "issuerKeyId exB1 = issuerKeyId exTie"
    and f6: "created exTie = created exB1"
    by (simp_all add: example_defs model_defs)
  from binding_replaced_unverified [OF merge fp j src before after i same first] f3
  have later: "bindingSignatures (snd (update exE exHolder exLater exPrimary)) = [exBQ, exB2]"
    by simp
  from binding_replaced_unverified [OF merge fp' j' src' before' after' i same' first'] f6
  have tie: "bindingSignatures (snd (update exE exHolder exSame exPrimary)) = [exBQ, exB1]"
    by simp
  from before have start: "bindingSignatures
      (snd (update exE exHolder (exLater\<lparr>bindingSignatures := []\<rparr>) exPrimary)) = [exBQ, exB1]"
    by simp
  show ?thesis
    by (intro conjI) (fact fp start f1 f2 f3 f4 later f5 f6 tie)+
qed

end
